theory Spec2Isabelle
  imports Complex_Main "HOL-Library.AList"
begin

section \<open>Shared vocabulary of the snapshots\<close>

text \<open>
  The repository is a series of independent FastAPI lessons, \<^verbatim>\<open>src/snapshots/NN_main.py\<close>.
  Each handler is embedded as a function from its arguments and the module-level state it
  touches to its outcome and the new state.  An exception raised by a handler is the
  \<open>Inl\<close> branch of a sum; a value it returns is the \<open>Inr\<close> branch.
\<close>

text \<open>
  \<^verbatim>\<open>HTTPException(status_code=..., detail=...)\<close>.  \<open>detail\<close> is \<open>None\<close> when the
  constructor is called without it.
\<close>

record HTTPException =
  status_code :: nat
  detail :: "string option"

text \<open>
  A Python \<^verbatim>\<open>dict\<close> used as a store is an association list in insertion order with
  distinct keys: \<^verbatim>\<open>k in d\<close> is \<open>map_of d k \<noteq> None\<close>, \<^verbatim>\<open>d[k]\<close> is \<open>map_of d k\<close>,
  \<^verbatim>\<open>d[k] = v\<close> is \<open>AList.update k v d\<close> (in place for a key that is present, at the end
  for a new one), \<^verbatim>\<open>del d[k]\<close> is \<open>AList.delete k d\<close>, \<^verbatim>\<open>len(d)\<close> is \<open>length d\<close> and
  \<^verbatim>\<open>d.values()\<close> is \<open>map snd d\<close>.
\<close>

type_synonym ('k, 'v) dict = "('k \<times> 'v) list"

section \<open>Values, validation errors and wire responses\<close>

text \<open>One step of the location of a validation error: a field name or a list index.\<close>

datatype loc_elem = Key string | Index nat

text \<open>
  What a validation error reports, kept symbolic (the engine derives its message text from
  it).  \<open>value_error\<close> carries the text of the \<^verbatim>\<open>ValueError\<close> a custom validator raised.
\<close>

datatype problem =
    missing
  | wrong_type
  | string_too_short nat
  | string_too_long nat
  | greater_than real
  | less_than_equal real
  | too_short nat
  | too_long nat
  | value_error string

text \<open>One entry of \<^verbatim>\<open>exc.errors()\<close>: where (\<^verbatim>\<open>error['loc']\<close>) and what.\<close>

record ErrorDetails =
  loc :: "loc_elem list"
  problem :: problem

text \<open>
  The Python values that handlers return and responses carry.  \<open>PObj c attrs\<close> is an
  instance of class \<open>c\<close> with the named attributes (a pydantic model instance, an exception
  object); \<open>PError\<close> is one validation error entry inside a response body.
\<close>

datatype pyval =
    PNone
  | PBool bool
  | PInt int
  | PFloat real
  | PStr string
  | is_PList: PList "pyval list"
  | is_PDict: PDict "(string \<times> pyval) list"
  | PObj string "(string \<times> pyval) list"
  | PError ErrorDetails

text \<open>
  A response on the wire: the status and the body (\<open>None\<close> when the response has no body
  at all).
\<close>

record wire_response =
  status :: nat
  content :: "pyval option"

text \<open>
  What a handler hands back when it does not raise: a value to be shaped, or a response
  object it built itself (\<^verbatim>\<open>Response\<close>, \<^verbatim>\<open>JSONResponse\<close>).
\<close>

datatype handler_result = Value pyval | RawResponse wire_response

text \<open>An optional string as a value: \<^verbatim>\<open>None\<close> or the string.\<close>

definition opt_str :: "string option \<Rightarrow> pyval" where
  "opt_str x = (case x of None \<Rightarrow> PNone | Some s \<Rightarrow> PStr s)"

text \<open>\<^verbatim>\<open>str(n)\<close> for a natural number: its decimal digits.\<close>

definition digit_char :: "nat \<Rightarrow> char" where
  "digit_char d = char_of (48 + d)"

function str_nat :: "nat \<Rightarrow> string" where
  "str_nat n = (if n < 10 then [digit_char n] else str_nat (n div 10) @ [digit_char (n mod 10)])"
  by pat_completeness auto
termination
  by (relation "measure (\<lambda>n. n)") auto

section \<open>Path functions of \<^verbatim>\<open>os.path\<close> (POSIX) used by snapshots 14 and 15\<close>

text \<open>\<^verbatim>\<open>s.startswith(p)\<close>\<close>

definition startswith :: "string \<Rightarrow> string \<Rightarrow> bool" where
  "startswith s p = (take (length p) s = p)"

text \<open>\<^verbatim>\<open>s.endswith(p)\<close>\<close>

definition endswith :: "string \<Rightarrow> string \<Rightarrow> bool" where
  "endswith s p = (length p \<le> length s \<and> drop (length s - length p) s = p)"

text \<open>
  \<^verbatim>\<open>os.path.basename(p)\<close>: \<^verbatim>\<open>i = p.rfind('/') + 1; return p[i:]\<close>, the part after the
  last slash (all of \<open>p\<close> when it has none).
\<close>

definition basename :: "string \<Rightarrow> string" where
  "basename p = rev (takeWhile (\<lambda>c. c \<noteq> CHR ''/'') (rev p))"

text \<open>\<^verbatim>\<open>os.path.isabs(p)\<close>: \<^verbatim>\<open>p.startswith('/')\<close>\<close>

definition isabs :: "string \<Rightarrow> bool" where
  "isabs p = startswith p ''/''"

text \<open>
  \<^verbatim>\<open>os.path.join(a, b)\<close> with one tail component:
  \<^verbatim>\<open>
  if b.startswith('/'): path = b
  elif not path or path.endswith('/'): path += b
  else: path += '/' + b
  \<close>
\<close>

definition join :: "string \<Rightarrow> string \<Rightarrow> string" where
  "join a b =
     (if startswith b ''/'' then b
      else if a = [] \<or> endswith a ''/'' then a @ b
      else a @ ''/'' @ b)"

text \<open>\<^verbatim>\<open>path.split('/')\<close>\<close>

fun split_sep :: "string \<Rightarrow> string list" where
  "split_sep [] = [[]]"
| "split_sep (c # cs) =
     (if c = CHR ''/'' then [] # split_sep cs
      else (case split_sep cs of
              [] \<Rightarrow> [[c]]
            | w # ws \<Rightarrow> (c # w) # ws))"

text \<open>\<^verbatim>\<open>'/'.join(comps)\<close>\<close>

fun sep_join :: "string list \<Rightarrow> string" where
  "sep_join [] = []"
| "sep_join [w] = w"
| "sep_join (w # ws) = w @ ''/'' @ sep_join ws"

text \<open>
  The component loop of \<^verbatim>\<open>os.path.normpath\<close>:
  \<^verbatim>\<open>
  for comp in comps:
      if comp in ('', '.'): continue
      if (comp != '..' or (not initial_slashes and not new_comps) or
           (new_comps and new_comps[-1] == '..')):
          new_comps.append(comp)
      elif new_comps:
          new_comps.pop()
  \<close>
\<close>

fun norm_comps :: "nat \<Rightarrow> string list \<Rightarrow> string list \<Rightarrow> string list" where
  "norm_comps initial_slashes [] new_comps = new_comps"
| "norm_comps initial_slashes (cmp # comps) new_comps =
     (if cmp = [] \<or> cmp = ''.'' then norm_comps initial_slashes comps new_comps
      else if cmp \<noteq> ''..'' \<or> (initial_slashes = 0 \<and> new_comps = [])
              \<or> (new_comps \<noteq> [] \<and> last new_comps = ''..'')
      then norm_comps initial_slashes comps (new_comps @ [cmp])
      else if new_comps \<noteq> [] then norm_comps initial_slashes comps (butlast new_comps)
      else norm_comps initial_slashes comps new_comps)"

text \<open>
  \<^verbatim>\<open>os.path.normpath(path)\<close>: the empty path is \<^verbatim>\<open>'.'\<close>; one leading slash, or exactly
  two, are kept, three or more count as one.
\<close>

definition normpath :: "string \<Rightarrow> string" where
  "normpath path =
     (if path = [] then ''.''
      else
        let initial_slashes =
              (if startswith path ''/''
               then (if startswith path ''//'' \<and> \<not> startswith path ''///'' then 2 else 1)
               else (0::nat));
            p = sep_join (norm_comps initial_slashes (split_sep path) []);
            p' = (if initial_slashes \<noteq> 0 then replicate initial_slashes CHR ''/'' @ p else p)
        in if p' = [] then ''.'' else p')"

text \<open>
  \<^verbatim>\<open>os.path.abspath(path)\<close>: \<^verbatim>\<open>if not isabs(path): path = join(os.getcwd(), path)\<close>, then
  \<^verbatim>\<open>normpath(path)\<close>.  The working directory of the server process is the parameter
  \<open>cwd\<close>; \<^verbatim>\<open>os.getcwd()\<close> always returns an absolute path.
\<close>

definition abspath :: "string \<Rightarrow> string \<Rightarrow> string" where
  "abspath cwd path = normpath (if isabs path then path else join cwd path)"

section \<open>The response shaper and the exception translator\<close>

text \<open>
  The handlers of the snapshots only declare \<^verbatim>\<open>response_model=\<close> and \<^verbatim>\<open>status_code=\<close>;
  the filtering and the translation of exceptions are done by the web framework, which is
  not part of the repository.  They are modelled here from sections 4.1, 4.4, 4.5 and 6 of
  the specification.
\<close>

text \<open>A declared field of an output schema; \<open>field_default = None\<close> means required.\<close>

record Field =
  field_name :: string
  field_default :: "pyval option"

text \<open>An output schema: a model with its fields in declaration order, or a list of one.\<close>

datatype schema = Model "Field list" | ListOf schema

text \<open>The named fields of a mapping or of an object with attributes.\<close>

fun attrs_of :: "pyval \<Rightarrow> (string \<times> pyval) list option" where
  "attrs_of (PDict kvs) = Some kvs"
| "attrs_of (PObj c kvs) = Some kvs"
| "attrs_of v = None"

fun lefts :: "('e + 'a) list \<Rightarrow> 'e list" where
  "lefts [] = []"
| "lefts (Inl e # rs) = e # lefts rs"
| "lefts (Inr v # rs) = lefts rs"

fun rights :: "('e + 'a) list \<Rightarrow> 'a list" where
  "rights [] = []"
| "rights (Inl e # rs) = rights rs"
| "rights (Inr v # rs) = v # rights rs"

text \<open>
  Modelled from the spec: one field of \<open>project\<close> (4.1), absent from \<^verbatim>\<open>src/\<close>.  The field
  is read by name from the source; a field absent from the source takes its default, and is
  an error when it is required.
\<close>

definition project_field :: "(string \<times> pyval) list \<Rightarrow> Field \<Rightarrow> ErrorDetails list + (string \<times> pyval)" where
  "project_field src f =
     (case map_of src (field_name f) of
        Some v \<Rightarrow> Inr (field_name f, v)
      | None \<Rightarrow>
          (case field_default f of
             Some d \<Rightarrow> Inr (field_name f, d)
           | None \<Rightarrow> Inl [\<lparr>loc = [Key (field_name f)], problem = missing\<rparr>]))"

text \<open>The errors of the \<open>i\<close>-th element of a list, located under index \<open>i\<close>.\<close>

definition at_index :: "nat \<Rightarrow> ErrorDetails list + pyval \<Rightarrow> ErrorDetails list + pyval" where
  "at_index i r =
     (case r of
        Inl errs \<Rightarrow> Inl (map (\<lambda>e. e\<lparr>loc := Index i # loc e\<rparr>) errs)
      | Inr v \<Rightarrow> Inr v)"

text \<open>
  Modelled from the spec: \<open>project\<close> (4.1), absent from \<^verbatim>\<open>src/\<close>.  It builds a new value
  holding only the schema's declared fields, in declaration order, and never copies a field
  absent from the schema; lists of entities project element-wise; every error is collected.
\<close>

fun project :: "schema \<Rightarrow> pyval \<Rightarrow> ErrorDetails list + pyval" where
  "project (Model fs) v =
     (case attrs_of v of
        None \<Rightarrow> Inl [\<lparr>loc = [], problem = wrong_type\<rparr>]
      | Some src \<Rightarrow>
          (let rs = map (project_field src) fs
           in if lefts rs = [] then Inr (PDict (rights rs)) else Inl (concat (lefts rs))))"
| "project (ListOf s) (PList vs) =
     (let rs = map (\<lambda>(i, v). at_index i (project s v)) (zip [0..<length vs] vs)
      in if lefts rs = [] then Inr (PList (rights rs)) else Inl (concat (lefts rs)))"
| "project (ListOf s) v = Inl [\<lparr>loc = [], problem = wrong_type\<rparr>]"

text \<open>
  Modelled from the spec: serialisation with the route's status code (4.4, 6), absent from
  \<^verbatim>\<open>src/\<close>.  A 204 response omits the body entirely.
\<close>

definition serialize :: "nat \<Rightarrow> pyval \<Rightarrow> wire_response" where
  "serialize code v = \<lparr>status = code, content = (if code = 204 then None else Some v)\<rparr>"

text \<open>
  Modelled from the spec: the unhandled-error default (4.5), absent from \<^verbatim>\<open>src/\<close>: a server
  fault with a generic body.
\<close>

definition server_fault :: wire_response where
  "server_fault = \<lparr>status = 500, content = Some (PStr ''Internal Server Error'')\<rparr>"

text \<open>
  Modelled from the spec: \<open>shape\<close> (4.4), absent from \<^verbatim>\<open>src/\<close>.  A raw response passes
  through unchanged; without an output schema the value is serialised as it is; otherwise it
  is projected, and a projection that fails surfaces as an unhandled error.
\<close>

definition shape :: "schema option \<Rightarrow> nat \<Rightarrow> handler_result \<Rightarrow> wire_response" where
  "shape output_schema code r =
     (case r of
        RawResponse w \<Rightarrow> w
      | Value v \<Rightarrow>
          (case output_schema of
             None \<Rightarrow> serialize code v
           | Some s \<Rightarrow>
               (case project s v of
                  Inl errs \<Rightarrow> server_fault
                | Inr p \<Rightarrow> serialize code p)))"

text \<open>
  Modelled from the spec: the default handler for declared HTTP errors (4.5, 8), absent from
  \<^verbatim>\<open>src/\<close>: the error's status with the body \<^verbatim>\<open>{"detail": ...}\<close>.
\<close>

definition http_exception_handler :: "HTTPException \<Rightarrow> wire_response" where
  "http_exception_handler e =
     \<lparr>status = status_code e,
      content = Some (PDict [(''detail'', (case detail e of None \<Rightarrow> PNone | Some d \<Rightarrow> PStr d))])\<rparr>"

text \<open>
  Modelled from the spec: the end of a request (2, 4.5), absent from \<^verbatim>\<open>src/\<close>: a raised
  \<^verbatim>\<open>HTTPException\<close> goes to the exception translator, a returned value to the shaper.
\<close>

definition respond :: "schema option \<Rightarrow> nat \<Rightarrow> HTTPException + handler_result \<Rightarrow> wire_response" where
  "respond output_schema code outcome =
     (case outcome of
        Inl e \<Rightarrow> http_exception_handler e
      | Inr r \<Rightarrow> shape output_schema code r)"

text \<open>
  An \<^verbatim>\<open>HTTPException\<close> instance seen as a value (when a handler returns it instead of raising
  it): an object with the attributes \<^verbatim>\<open>status_code\<close>, \<^verbatim>\<open>detail\<close> and \<^verbatim>\<open>headers\<close>.
\<close>

definition exception_object :: "HTTPException \<Rightarrow> pyval" where
  "exception_object e =
     PObj ''HTTPException''
       [(''status_code'', PInt (int (status_code e))),
        (''detail'', (case detail e of None \<Rightarrow> PNone | Some d \<Rightarrow> PStr d)),
        (''headers'', PNone)]"

section \<open>Snapshot 10: response models\<close>

text \<open>
  \<^verbatim>\<open>class UserIn(BaseModel)\<close>.  \<^verbatim>\<open>EmailStr\<close> constrains the input only; the stored value
  is its string.
\<close>

record UserIn =
  username :: string
  password :: string
  email :: string
  full_name :: "string option"

text \<open>
  \<^verbatim>\<open>class ItemPublic(BaseModel): name: str; price: float\<close> and
  \<^verbatim>\<open>class ItemInternal(BaseModel): name: str; price: float; owner_id: int; secret_code: str\<close>.
  The internal record extends the two public fields by the two internal ones, in the
  declaration order of the class.
\<close>

record Item =
  name :: string
  price :: real

record ItemInternal = Item +
  owner_id :: int
  secret_code :: string

text \<open>A model instance as a value: the class name and the attributes in declaration order.\<close>

definition UserIn_obj :: "UserIn \<Rightarrow> pyval" where
  "UserIn_obj u =
     PObj ''UserIn''
       [(''username'', PStr (username u)), (''password'', PStr (password u)),
        (''email'', PStr (email u)), (''full_name'', opt_str (full_name u))]"

definition ItemInternal_obj :: "ItemInternal \<Rightarrow> pyval" where
  "ItemInternal_obj i =
     PObj ''ItemInternal''
       [(''name'', PStr (name i)), (''price'', PFloat (price i)),
        (''owner_id'', PInt (owner_id i)), (''secret_code'', PStr (secret_code i))]"

text \<open>
  The output schemas \<^verbatim>\<open>UserOut\<close> (\<^verbatim>\<open>username\<close>, \<^verbatim>\<open>email\<close>, \<^verbatim>\<open>full_name = None\<close>) and
  \<^verbatim>\<open>ItemPublic\<close> (\<^verbatim>\<open>name\<close>, \<^verbatim>\<open>price\<close>).
\<close>

definition UserOut :: schema where
  "UserOut = Model [\<lparr>field_name = ''username'', field_default = None\<rparr>,
                    \<lparr>field_name = ''email'', field_default = None\<rparr>,
                    \<lparr>field_name = ''full_name'', field_default = Some PNone\<rparr>]"

definition ItemPublic :: schema where
  "ItemPublic = Model [\<lparr>field_name = ''name'', field_default = None\<rparr>,
                       \<lparr>field_name = ''price'', field_default = None\<rparr>]"

type_synonym users_db = "(string, UserIn) dict"

type_synonym internal_items_db = "(int, ItemInternal) dict"

text \<open>The initial \<^verbatim>\<open>fake_users_db\<close> and \<^verbatim>\<open>fake_items_db\<close> of the module.\<close>

definition fake_users_db :: users_db where
  "fake_users_db = []"

definition fake_items_db :: internal_items_db where
  "fake_items_db =
     [(1, \<lparr>name = ''keyboard'', price = 75, owner_id = 1, secret_code = ''abc''\<rparr>),
      (2, \<lparr>name = ''Mouse'', price = 25.5, owner_id = 1, secret_code = ''def''\<rparr>),
      (3, \<lparr>name = ''Monitor'', price = 300, owner_id = 2, secret_code = ''ghi''\<rparr>)]"

text \<open>\<^verbatim>\<open>create_user(user)\<close>: \<^verbatim>\<open>fake_users_db[user.username] = user; return user\<close>\<close>

definition create_user :: "UserIn \<Rightarrow> users_db \<Rightarrow> UserIn \<times> users_db" where
  "create_user user db = (user, AList.update (username user) user db)"

text \<open>The route \<^verbatim>\<open>@app.post("/users/", response_model=UserOut, status_code=201)\<close>.\<close>

definition POST_users :: "UserIn \<Rightarrow> users_db \<Rightarrow> wire_response \<times> users_db" where
  "POST_users user db =
     (let (r, db') = create_user user db
      in (respond (Some UserOut) 201 (Inr (Value (UserIn_obj r))), db'))"

text \<open>
  \<^verbatim>\<open>read_user(username)\<close>: 404 for a name that is not a key, the stored object otherwise.
\<close>

definition read_user :: "string \<Rightarrow> users_db \<Rightarrow> HTTPException + UserIn" where
  "read_user uname db =
     (case map_of db uname of
        None \<Rightarrow> Inl \<lparr>status_code = 404, detail = Some ''User not found''\<rparr>
      | Some user_in_db \<Rightarrow> Inr user_in_db)"

text \<open>The route \<^verbatim>\<open>@app.get("/users/{username}", response_model=UserOut)\<close>.\<close>

definition GET_user :: "string \<Rightarrow> users_db \<Rightarrow> wire_response" where
  "GET_user uname db =
     respond (Some UserOut) 200 (map_sum id (\<lambda>u. Value (UserIn_obj u)) (read_user uname db))"

text \<open>\<^verbatim>\<open>read_items()\<close>: \<^verbatim>\<open>return list(fake_items_db.values())\<close>\<close>

definition read_items :: "internal_items_db \<Rightarrow> ItemInternal list" where
  "read_items db = map snd db"

text \<open>The route \<^verbatim>\<open>@app.get("/items/", response_model=List[ItemPublic])\<close>.\<close>

definition GET_items :: "internal_items_db \<Rightarrow> wire_response" where
  "GET_items db =
     respond (Some (ListOf ItemPublic)) 200
       (Inr (Value (PList (map ItemInternal_obj (read_items db)))))"

text \<open>
  \<^verbatim>\<open>read_single_item(item_id)\<close>: 404 for an id that is not a key, the stored object otherwise.
\<close>

definition read_single_item :: "int \<Rightarrow> internal_items_db \<Rightarrow> HTTPException + ItemInternal" where
  "read_single_item item_id db =
     (case map_of db item_id of
        None \<Rightarrow> Inl \<lparr>status_code = 404, detail = Some ''Item not found''\<rparr>
      | Some internal_item \<Rightarrow> Inr internal_item)"

text \<open>The route \<^verbatim>\<open>@app.get("/items/{item_id}", response_model=ItemPublic)\<close>.\<close>

definition GET_item :: "int \<Rightarrow> internal_items_db \<Rightarrow> wire_response" where
  "GET_item item_id db =
     respond (Some ItemPublic) 200
       (map_sum id (\<lambda>i. Value (ItemInternal_obj i)) (read_single_item item_id db))"

text \<open>
  A value holds only the declared fields of a schema: a mapping whose keys are exactly the
  schema's field names, in order; for a list schema, a list of such values.
\<close>

fun only_declared :: "schema \<Rightarrow> pyval \<Rightarrow> bool" where
  "only_declared (Model fs) (PDict kvs) = (map fst kvs = map field_name fs)"
| "only_declared (ListOf s) (PList vs) = list_all (only_declared s) vs"
| "only_declared s v = False"

text \<open>What \<^verbatim>\<open>ItemPublic\<close> and \<^verbatim>\<open>UserOut\<close> show of a stored object.\<close>

definition public_item :: "ItemInternal \<Rightarrow> pyval" where
  "public_item i = PDict [(''name'', PStr (name i)), (''price'', PFloat (price i))]"

definition public_user :: "UserIn \<Rightarrow> pyval" where
  "public_user u =
     PDict [(''username'', PStr (username u)), (''email'', PStr (email u)),
            (''full_name'', opt_str (full_name u))]"

section \<open>Snapshot 12: status codes (create, delete, update)\<close>

text \<open>
  \<^verbatim>\<open>class Item(BaseModel): name: str; price: float\<close> is the record \<open>Item\<close> above.  The
  values of \<^verbatim>\<open>items_db\<close> are the dicts \<^verbatim>\<open>{"name": ..., "price": ...}\<close> (the two initial
  literals and every \<^verbatim>\<open>item.model_dump()\<close>), so a stored dict is represented by the same
  record and \<^verbatim>\<open>model_dump\<close> by the identity; \<^verbatim>\<open>==\<close> on two such dicts is equality of
  their two entries.  A Python float is a real number here.
\<close>

type_synonym items_db = "(int, Item) dict"

definition model_dump :: "Item \<Rightarrow> Item" where
  "model_dump item = item"

text \<open>The dict as a value: its two keys in order.\<close>

definition Item_dict :: "Item \<Rightarrow> pyval" where
  "Item_dict d = PDict [(''name'', PStr (name d)), (''price'', PFloat (price d))]"

text \<open>The output schema \<^verbatim>\<open>response_model=Item\<close>: both fields required.\<close>

definition Item_schema :: schema where
  "Item_schema = Model [\<lparr>field_name = ''name'', field_default = None\<rparr>,
                        \<lparr>field_name = ''price'', field_default = None\<rparr>]"

text \<open>The initial \<^verbatim>\<open>items_db\<close> of the module.\<close>

definition items_db_init :: items_db where
  "items_db_init = [(1, \<lparr>name = ''Laptop'', price = 1200\<rparr>),
                    (2, \<lparr>name = ''keyboard'', price = 75\<rparr>)]"

text \<open>
  \<^verbatim>\<open>delete_item(item_id)\<close>: \<^verbatim>\<open>del items_db[item_id]; return None\<close> for a key that is
  present, \<^verbatim>\<open>raise HTTPException(404, "Item not found")\<close> otherwise.
\<close>

definition delete_item :: "int \<Rightarrow> items_db \<Rightarrow> (HTTPException + handler_result) \<times> items_db" where
  "delete_item item_id items_db =
     (if map_of items_db item_id \<noteq> None
      then (Inr (Value PNone), AList.delete item_id items_db)
      else (Inl \<lparr>status_code = 404, detail = Some ''Item not found''\<rparr>, items_db))"

text \<open>The route \<^verbatim>\<open>@app.delete("/items/{item_id}", status_code=204)\<close>.\<close>

definition DELETE_item :: "int \<Rightarrow> items_db \<Rightarrow> wire_response \<times> items_db" where
  "DELETE_item item_id items_db =
     (let (outcome, items_db') = delete_item item_id items_db
      in (respond None 204 outcome, items_db'))"

text \<open>
  \<^verbatim>\<open>update_item(item_id, item)\<close>:
  \<^verbatim>\<open>
  if item_id not in items_db:
      raise HTTPException(status_code=404, detail="Item not found")
  if items_db[item_id] == item.model_dump():
      return HTTPException(status_code=304)
  else:
      items_db[item_id] = item.model_dump()
      return items_db[item_id]
  \<close>
  In the second branch the exception object is returned, not raised.
\<close>

definition update_item :: "int \<Rightarrow> Item \<Rightarrow> items_db \<Rightarrow> (HTTPException + handler_result) \<times> items_db" where
  "update_item item_id item items_db =
     (case map_of items_db item_id of
        None \<Rightarrow> (Inl \<lparr>status_code = 404, detail = Some ''Item not found''\<rparr>, items_db)
      | Some stored \<Rightarrow>
          if stored = model_dump item
          then (Inr (Value (exception_object \<lparr>status_code = 304, detail = None\<rparr>)), items_db)
          else (Inr (Value (Item_dict (model_dump item))),
                AList.update item_id (model_dump item) items_db))"

text \<open>The route \<^verbatim>\<open>@app.put("/items/{item_id}", response_model=Item)\<close>, default status 200.\<close>

definition PUT_item :: "int \<Rightarrow> Item \<Rightarrow> items_db \<Rightarrow> wire_response \<times> items_db" where
  "PUT_item item_id item items_db =
     (let (outcome, items_db') = update_item item_id item items_db
      in (respond (Some Item_schema) 200 outcome, items_db'))"

section \<open>Snapshot 15: file download\<close>

definition DOWNLOAD_DIR :: string where
  "DOWNLOAD_DIR = ''./downloadables/''"

text \<open>
  \<^verbatim>\<open>FileResponse(path=..., filename=..., media_type=...)\<close>; the two optional arguments are
  \<open>None\<close> when the call leaves them out.  \<open>fr_filename\<close> is the name sent in the
  \<^verbatim>\<open>Content-Disposition\<close> header, \<open>fr_media_type\<close> the \<^verbatim>\<open>Content-Type\<close>.
\<close>

record FileResponse =
  fr_path :: string
  fr_filename :: "string option"
  fr_media_type :: "string option"

text \<open>
  \<^verbatim>\<open>download_basic(file_name)\<close>.  The file system is the predicate \<open>isfile\<close>
  (\<^verbatim>\<open>os.path.isfile\<close>), the process's working directory is \<open>cwd\<close>.
\<close>

definition download_basic ::
  "string \<Rightarrow> (string \<Rightarrow> bool) \<Rightarrow> string \<Rightarrow> HTTPException + FileResponse" where
  "download_basic cwd isfile file_name =
     (let safe_base_filename = basename file_name;
          file_path = join DOWNLOAD_DIR safe_base_filename
      in if \<not> isfile file_path
         then Inl \<lparr>status_code = 404, detail = Some ''File not found''\<rparr>
         else if \<not> startswith file_path (abspath cwd DOWNLOAD_DIR)
         then Inl \<lparr>status_code = 403, detail = Some ''Access denied''\<rparr>
         else Inr \<lparr>fr_path = file_path, fr_filename = None, fr_media_type = None\<rparr>)"

text \<open>
  The response that \<^verbatim>\<open>download_custom\<close> builds once both guards are passed (its last
  lines).  \<open>guess_type\<close> is the first component of \<^verbatim>\<open>mimetypes.guess_type\<close>, a table of
  the standard library from file name to MIME type (\<open>None\<close> for an unknown extension).
  \<^verbatim>\<open>
  media_type, _ = mimetypes.guess_type(file_path)
  if media_type is None:
      media_type = 'application/octet-stream'
  download_filename = f"download_{safe_base_filename}"
  return FileResponse(path=file_path, filename=download_filename, media_type=media_type)
  \<close>
\<close>

definition custom_file_response ::
  "(string \<Rightarrow> string option) \<Rightarrow> string \<Rightarrow> string \<Rightarrow> FileResponse" where
  "custom_file_response guess_type file_path safe_base_filename =
     (let media_type = (case guess_type file_path of
                          None \<Rightarrow> ''application/octet-stream''
                        | Some t \<Rightarrow> t);
          download_filename = ''download_'' @ safe_base_filename
      in \<lparr>fr_path = file_path, fr_filename = Some download_filename,
          fr_media_type = Some media_type\<rparr>)"

text \<open>
  \<^verbatim>\<open>download_custom(file_name)\<close>: the two guards of \<open>download_basic\<close>, then the response
  above.
\<close>

definition download_custom ::
  "string \<Rightarrow> (string \<Rightarrow> bool) \<Rightarrow> (string \<Rightarrow> string option) \<Rightarrow> string
     \<Rightarrow> HTTPException + FileResponse" where
  "download_custom cwd isfile guess_type file_name =
     (let safe_base_filename = basename file_name;
          file_path = join DOWNLOAD_DIR safe_base_filename
      in if \<not> isfile file_path
         then Inl \<lparr>status_code = 404, detail = Some ''File not found''\<rparr>
         else if \<not> startswith file_path (abspath cwd DOWNLOAD_DIR)
         then Inl \<lparr>status_code = 403, detail = Some ''Access denied''\<rparr>
         else Inr (custom_file_response guess_type file_path safe_base_filename))"

text \<open>A MIME table for examples: it knows \<^verbatim>\<open>.pdf\<close> and \<^verbatim>\<open>.txt\<close> only.\<close>

definition small_mime_table :: "string \<Rightarrow> string option" where
  "small_mime_table p =
     (if endswith p ''.pdf'' then Some ''application/pdf''
      else if endswith p ''.txt'' then Some ''text/plain''
      else None)"

section \<open>Snapshot 14: file upload\<close>

definition UPLOAD_DIR :: string where
  "UPLOAD_DIR = ''./uploads''"

text \<open>
  An \<^verbatim>\<open>UploadFile\<close>: the client's file name (may be missing), its content type and the
  bytes still to be read.
\<close>

record UploadFile =
  filename :: "string option"
  content_type :: "string option"
  contents :: string

text \<open>
  The file system behind \<^verbatim>\<open>aiofiles\<close>, over a state \<open>'fs\<close>: opening a destination for
  writing and writing one chunk to it.  Each returns the new state and \<open>Some e\<close> when it
  raised an exception whose \<^verbatim>\<open>str\<close> is \<open>e\<close>.
\<close>

record 'fs aiofiles =
  open_wb :: "'fs \<Rightarrow> string \<Rightarrow> string option \<times> 'fs"
  write_chunk :: "'fs \<Rightarrow> string \<Rightarrow> string \<Rightarrow> string option \<times> 'fs"

text \<open>
  The chunks that the successive \<^verbatim>\<open>await file.read(n)\<close> return until the first empty
  one.  Reading the received upload does not fail; opening and writing the destination may.
\<close>

function read_chunks :: "nat \<Rightarrow> string \<Rightarrow> string list" where
  "read_chunks n bs =
     (if n = 0 \<or> bs = [] then [] else take n bs # read_chunks n (drop n bs))"
  by pat_completeness auto
termination
  by (relation "measure (\<lambda>(n, bs). length bs)") auto

text \<open>
  \<^verbatim>\<open>while content := await file.read(1024 * 1024): await out_file.write(content)\<close>: the
  first write that raises ends the loop.
\<close>

fun write_chunks :: "'fs aiofiles \<Rightarrow> 'fs \<Rightarrow> string \<Rightarrow> string list \<Rightarrow> string option \<times> 'fs" where
  "write_chunks io fs destination [] = (None, fs)"
| "write_chunks io fs destination (chunk # chunks) =
     (case write_chunk io fs destination chunk of
        (Some e, fs') \<Rightarrow> (Some e, fs')
      | (None, fs') \<Rightarrow> write_chunks io fs' destination chunks)"

text \<open>
  The body of the \<^verbatim>\<open>try\<close>: open the destination, then copy the upload in chunks of 1 MiB.
\<close>

definition save_upload :: "'fs aiofiles \<Rightarrow> 'fs \<Rightarrow> string \<Rightarrow> UploadFile \<Rightarrow> string option \<times> 'fs" where
  "save_upload io fs destination f =
     (case open_wb io fs destination of
        (Some e, fs') \<Rightarrow> (Some e, fs')
      | (None, fs') \<Rightarrow> write_chunks io fs' destination (read_chunks (1024 * 1024) (contents f)))"

text \<open>
  The destination of one file, given \<^verbatim>\<open>len(saved_files)\<close>:
  \<^verbatim>\<open>
  safe_filename = os.path.basename(file.filename or f"uploaded_file_{len(saved_files)}")
  destination = os.path.join(UPLOAD_DIR, safe_filename)
  \<close>
  (\<^verbatim>\<open>x or y\<close> is \<open>y\<close> when \<open>x\<close> is \<^verbatim>\<open>None\<close> or the empty string.)
\<close>

definition destination_for :: "nat \<Rightarrow> UploadFile \<Rightarrow> string" where
  "destination_for len_saved_files f =
     (let safe_filename =
            basename (case filename f of
                        None \<Rightarrow> ''uploaded_file_'' @ str_nat len_saved_files
                      | Some n \<Rightarrow> if n = [] then ''uploaded_file_'' @ str_nat len_saved_files else n)
      in join UPLOAD_DIR safe_filename)"

text \<open>
  One iteration of \<^verbatim>\<open>for file in files\<close>: the entry it appends and the new file system.
  \<^verbatim>\<open>
  try:
      async with aiofiles.open(destination, 'wb') as out_file: ...
      saved_files.append({"filename": file.filename, "save_path": destination})
  except Exception as e:
      saved_files.append({"filename": file.filename, "error": str(e)})
  \<close>
\<close>

definition process_file :: "'fs aiofiles \<Rightarrow> 'fs \<Rightarrow> nat \<Rightarrow> UploadFile \<Rightarrow> pyval \<times> 'fs" where
  "process_file io fs len_saved_files f =
     (let destination = destination_for len_saved_files f
      in case save_upload io fs destination f of
           (None, fs') \<Rightarrow>
             (PDict [(''filename'', opt_str (filename f)), (''save_path'', PStr destination)], fs')
         | (Some e, fs') \<Rightarrow>
             (PDict [(''filename'', opt_str (filename f)), (''error'', PStr e)], fs'))"

text \<open>The loop \<^verbatim>\<open>for file in files\<close> over the accumulator \<^verbatim>\<open>saved_files\<close>.\<close>

fun process_files :: "'fs aiofiles \<Rightarrow> 'fs \<Rightarrow> UploadFile list \<Rightarrow> pyval list \<Rightarrow> pyval list \<times> 'fs" where
  "process_files io fs [] saved_files = (saved_files, fs)"
| "process_files io fs (f # files) saved_files =
     (case process_file io fs (length saved_files) f of
        (entry, fs') \<Rightarrow> process_files io fs' files (saved_files @ [entry]))"

text \<open>
  \<^verbatim>\<open>upload_multiple_files(files)\<close>: the loop from the empty list, then
  \<^verbatim>\<open>{"message": f"{len(saved_files)} files processed.", "details": saved_files}\<close>.
\<close>

definition upload_multiple_files :: "'fs aiofiles \<Rightarrow> 'fs \<Rightarrow> UploadFile list \<Rightarrow> pyval \<times> 'fs" where
  "upload_multiple_files io fs files =
     (case process_files io fs files [] of
        (saved_files, fs') \<Rightarrow>
          (PDict [(''message'', PStr (str_nat (length saved_files) @ '' files processed.'')),
                  (''details'', PList saved_files)], fs'))"

text \<open>
  An entry of the result marks its file as saved (it has \<^verbatim>\<open>save_path\<close> and no \<^verbatim>\<open>error\<close>)
  or as failed (it has \<^verbatim>\<open>error\<close> and no \<^verbatim>\<open>save_path\<close>).
\<close>

definition marked_saved :: "pyval \<Rightarrow> bool" where
  "marked_saved entry =
     (case attrs_of entry of
        None \<Rightarrow> False
      | Some kvs \<Rightarrow> map_of kvs ''save_path'' \<noteq> None \<and> map_of kvs ''error'' = None)"

definition marked_failed :: "pyval \<Rightarrow> bool" where
  "marked_failed entry =
     (case attrs_of entry of
        None \<Rightarrow> False
      | Some kvs \<Rightarrow> map_of kvs ''error'' \<noteq> None \<and> map_of kvs ''save_path'' = None)"

text \<open>The \<^verbatim>\<open>filename\<close> an entry reports.\<close>

definition entry_filename :: "pyval \<Rightarrow> pyval option" where
  "entry_filename entry =
     (case attrs_of entry of None \<Rightarrow> None | Some kvs \<Rightarrow> map_of kvs ''filename'')"

text \<open>
  A file system for examples: the state lists the chunks written so far, and every write
  to the destination \<open>bad\<close> raises.
\<close>

definition failing_at :: "string \<Rightarrow> ((string \<times> string) list) aiofiles" where
  "failing_at bad =
     \<lparr>open_wb = (\<lambda>fs destination. (None, fs)),
      write_chunk = (\<lambda>fs destination chunk.
         if destination = bad then (Some ''No space left on device'', fs)
         else (None, fs @ [(destination, chunk)]))\<rparr>"

section \<open>Snapshots 06 and 09: validated input and the validation error handler\<close>

subsection \<open>String methods used by the validator\<close>

text \<open>
  \<^verbatim>\<open>s.lower()\<close>, \<^verbatim>\<open>sub in s\<close> and \<^verbatim>\<open>s.title()\<close> as Python computes them on ASCII
  strings, where the cased characters are the 26 letters in their two cases.  They are used
  on ASCII strings only: the statements about them carry \<open>is_ascii\<close>.
\<close>


definition is_upper :: "char \<Rightarrow> bool" where
  "is_upper c = (65 \<le> (of_char c :: nat) \<and> (of_char c :: nat) \<le> 90)"

definition is_lower :: "char \<Rightarrow> bool" where
  "is_lower c = (97 \<le> (of_char c :: nat) \<and> (of_char c :: nat) \<le> 122)"

definition lower_char :: "char \<Rightarrow> char" where
  "lower_char c = (if is_upper c then char_of ((of_char c :: nat) + 32) else c)"

definition upper_char :: "char \<Rightarrow> char" where
  "upper_char c = (if is_lower c then char_of ((of_char c :: nat) - 32) else c)"

definition lower :: "string \<Rightarrow> string" where
  "lower s = map lower_char s"

text \<open>\<^verbatim>\<open>sub in s\<close>: \<open>sub\<close> occurs in \<open>s\<close> as a contiguous substring.\<close>

fun contains :: "string \<Rightarrow> string \<Rightarrow> bool" where
  "contains [] sub = (sub = [])"
| "contains (c # cs) sub = (startswith (c # cs) sub \<or> contains cs sub)"

text \<open>
  \<^verbatim>\<open>s.title()\<close>: a cased character that follows an uncased one (or starts the string) is
  upper-cased, a cased character that follows a cased one is lower-cased.
\<close>

fun title_from :: "bool \<Rightarrow> string \<Rightarrow> string" where
  "title_from previous_is_cased [] = []"
| "title_from previous_is_cased (c # cs) =
     (if is_lower c
      then (if previous_is_cased then c else upper_char c) # title_from True cs
      else if is_upper c
      then (if previous_is_cased then lower_char c else c) # title_from True cs
      else c # title_from False cs)"

definition title :: "string \<Rightarrow> string" where
  "title s = title_from False s"

subsection \<open>Snapshot 06: the schema \<^verbatim>\<open>Item\<close>\<close>

text \<open>
  A field of the request body after JSON decoding: absent, present with a value that cannot
  be coerced to the field's type, or present with a value of that type.  For an
  \<^verbatim>\<open>Optional\<close> field the value is \<open>None\<close> for JSON \<^verbatim>\<open>null\<close>.
\<close>

datatype 'a raw = Absent | Mistyped | Given 'a

record ItemIn =
  in_name :: "string raw"
  in_description :: "string option raw"
  in_price :: "real raw"
  in_tax :: "real option raw"
  in_tag :: "string list raw"

text \<open>
  A validated \<^verbatim>\<open>Item\<close> of snapshot 06 (\<^verbatim>\<open>name\<close>, \<^verbatim>\<open>description\<close>, \<^verbatim>\<open>price\<close>, \<^verbatim>\<open>tax\<close>,
  \<^verbatim>\<open>tag\<close>): the record extends \<open>name\<close> and \<open>price\<close> by the three other fields.  It also
  stands for the dict \<^verbatim>\<open>item.model_dump()\<close> stored in \<^verbatim>\<open>items_db\<close>.
\<close>

record Item_06 = Item +
  description :: "string option"
  tax :: "real option"
  tag :: "string list"

text \<open>\<^verbatim>\<open>item.model_dump()\<close> as a value: the five keys in declaration order.\<close>

definition Item_06_dict :: "Item_06 \<Rightarrow> (string \<times> pyval) list" where
  "Item_06_dict d =
     [(''name'', PStr (name d)),
      (''description'', opt_str (description d)),
      (''price'', PFloat (price d)),
      (''tax'', (case tax d of None \<Rightarrow> PNone | Some t \<Rightarrow> PFloat t)),
      (''tag'', PList (map PStr (tag d)))]"

text \<open>
  The custom validator of \<^verbatim>\<open>name\<close>; \<open>Inl\<close> is the message of the \<^verbatim>\<open>ValueError\<close> it raises.
  \<^verbatim>\<open>
  if "admin" in v.lower():
      raise ValueError("Item name cannot contain 'admin'")
  return v.title()
  \<close>
\<close>

definition name_must_not_be_admin :: "string \<Rightarrow> string + string" where
  "name_must_not_be_admin v =
     (if contains (lower v) ''admin''
      then Inl (''Item name cannot contain '' @ [CHR 0x27] @ ''admin'' @ [CHR 0x27])
      else Inr (title v))"

text \<open>One error at field \<open>f\<close> below the location \<open>pre\<close> of the body.\<close>

definition field_error :: "loc_elem list \<Rightarrow> string \<Rightarrow> problem \<Rightarrow> ErrorDetails list + 'a" where
  "field_error pre f pr = Inl [\<lparr>loc = pre @ [Key f], problem = pr\<rparr>]"

text \<open>
  Modelled from the spec: the steps of \<open>validate\<close> (4.1) for one field, absent from
  \<^verbatim>\<open>src/\<close>: a missing required field is an error, a missing optional one takes its default;
  then coercion, then the declared constraints (the first violated one is reported), then
  the custom validators, whose result replaces the value.  The constraints are those of the
  \<^verbatim>\<open>Field(...)\<close> declarations of snapshot 06; for \<^verbatim>\<open>name\<close>: required, \<^verbatim>\<open>min_length=3\<close>,
  \<^verbatim>\<open>max_length=50\<close>, then \<open>name_must_not_be_admin\<close>.
\<close>

definition validate_name :: "loc_elem list \<Rightarrow> string raw \<Rightarrow> ErrorDetails list + string" where
  "validate_name pre r =
     (case r of
        Absent \<Rightarrow> field_error pre ''name'' missing
      | Mistyped \<Rightarrow> field_error pre ''name'' wrong_type
      | Given v \<Rightarrow>
          if length v < 3 then field_error pre ''name'' (string_too_short 3)
          else if length v > 50 then field_error pre ''name'' (string_too_long 50)
          else (case name_must_not_be_admin v of
                  Inl m \<Rightarrow> field_error pre ''name'' (value_error m)
                | Inr v' \<Rightarrow> Inr v'))"

text \<open>
  Modelled from the spec: the same steps for \<^verbatim>\<open>description\<close>: optional, default \<^verbatim>\<open>None\<close>, \<^verbatim>\<open>max_length=300\<close>.
\<close>

definition validate_description ::
  "loc_elem list \<Rightarrow> string option raw \<Rightarrow> ErrorDetails list + string option" where
  "validate_description pre r =
     (case r of
        Absent \<Rightarrow> Inr None
      | Mistyped \<Rightarrow> field_error pre ''description'' wrong_type
      | Given None \<Rightarrow> Inr None
      | Given (Some v) \<Rightarrow>
          if length v > 300 then field_error pre ''description'' (string_too_long 300)
          else Inr (Some v))"

text \<open>
  Modelled from the spec: the same steps for \<^verbatim>\<open>price\<close>: required, \<^verbatim>\<open>gt=0\<close>, \<^verbatim>\<open>le=100000.0\<close>.
\<close>

definition validate_price :: "loc_elem list \<Rightarrow> real raw \<Rightarrow> ErrorDetails list + real" where
  "validate_price pre r =
     (case r of
        Absent \<Rightarrow> field_error pre ''price'' missing
      | Mistyped \<Rightarrow> field_error pre ''price'' wrong_type
      | Given v \<Rightarrow>
          if \<not> v > 0 then field_error pre ''price'' (greater_than 0)
          else if \<not> v \<le> 100000 then field_error pre ''price'' (less_than_equal 100000)
          else Inr v)"

text \<open>
  Modelled from the spec: the same steps for \<^verbatim>\<open>tax\<close>: optional, default \<^verbatim>\<open>None\<close>, \<^verbatim>\<open>gt=0\<close>.
\<close>

definition validate_tax :: "loc_elem list \<Rightarrow> real option raw \<Rightarrow> ErrorDetails list + real option" where
  "validate_tax pre r =
     (case r of
        Absent \<Rightarrow> Inr None
      | Mistyped \<Rightarrow> field_error pre ''tax'' wrong_type
      | Given None \<Rightarrow> Inr None
      | Given (Some v) \<Rightarrow>
          if \<not> v > 0 then field_error pre ''tax'' (greater_than 0)
          else Inr (Some v))"

text \<open>
  Modelled from the spec: the same steps for \<^verbatim>\<open>tag\<close>: default \<^verbatim>\<open>[]\<close> (a default is not validated), \<^verbatim>\<open>min_length=1\<close>, \<^verbatim>\<open>max_length=5\<close>.
\<close>

definition validate_tag :: "loc_elem list \<Rightarrow> string list raw \<Rightarrow> ErrorDetails list + string list" where
  "validate_tag pre r =
     (case r of
        Absent \<Rightarrow> Inr []
      | Mistyped \<Rightarrow> field_error pre ''tag'' wrong_type
      | Given v \<Rightarrow>
          if length v < 1 then field_error pre ''tag'' (too_short 1)
          else if length v > 5 then field_error pre ''tag'' (too_long 5)
          else Inr v)"

text \<open>The errors of one field's result.\<close>

fun errors_of :: "ErrorDetails list + 'a \<Rightarrow> ErrorDetails list" where
  "errors_of (Inl errs) = errs"
| "errors_of (Inr v) = []"

text \<open>
  Modelled from the spec: \<open>validate\<close> (4.1) for the schema \<^verbatim>\<open>Item\<close> of snapshot 06, absent
  from \<^verbatim>\<open>src/\<close>: every field is validated, in declaration order, and the errors of all
  fields are collected; the item is built only when no field failed.  \<open>pre\<close> is the
  location of the body inside the request (empty in the specification).
\<close>

definition validate_Item :: "loc_elem list \<Rightarrow> ItemIn \<Rightarrow> ErrorDetails list + Item_06" where
  "validate_Item pre r =
     (let n = validate_name pre (in_name r);
          d = validate_description pre (in_description r);
          p = validate_price pre (in_price r);
          t = validate_tax pre (in_tax r);
          g = validate_tag pre (in_tag r)
      in case (n, d, p, t, g) of
           (Inr n', Inr d', Inr p', Inr t', Inr g') \<Rightarrow>
             Inr \<lparr>name = n', price = p', description = d', tax = t', tag = g'\<rparr>
         | _ \<Rightarrow> Inl (errors_of n @ errors_of d @ errors_of p @ errors_of t @ errors_of g))"

text \<open>
  \<^verbatim>\<open>create_item(item)\<close> of snapshot 06:
  \<^verbatim>\<open>
  item_id = len(items_db) + 1
  items_db[item_id] = item.model_dump()
  return {"item_id": item_id, **items_db[item_id]}
  \<close>
  The dict read back in the last line is the one stored in the line before.
\<close>

definition create_item :: "Item_06 \<Rightarrow> (int, Item_06) dict \<Rightarrow> pyval \<times> (int, Item_06) dict" where
  "create_item item items_db =
     (let item_id = int (length items_db) + 1;
          items_db' = AList.update item_id item items_db
      in (PDict ((''item_id'', PInt item_id) # Item_06_dict item), items_db'))"

text \<open>
  The framework's own handler for \<^verbatim>\<open>RequestValidationError\<close>, in force in an application
  that registers none, as snapshot 06 does: status 422 (the default that the comments of
  \<^verbatim>\<open>09_main.py\<close>, lines 38 and 51, say its handler replaces) and the body
  \<^verbatim>\<open>{"detail": exc.errors()}\<close>.
\<close>

definition default_validation_handler :: "ErrorDetails list \<Rightarrow> wire_response" where
  "default_validation_handler errors =
     \<lparr>status = 422, content = Some (PDict [(''detail'', PList (map PError errors))])\<rparr>"

text \<open>
  Modelled from the spec: the request pipeline (2, 4.3, 4.5) for the route
  \<^verbatim>\<open>@app.post("/items/", status_code=201)\<close> of snapshot 06, absent from \<^verbatim>\<open>src/\<close>: the
  body is validated first; a failure goes to the handler for validation errors and
  \<open>create_item\<close> is not run; otherwise \<open>create_item\<close> runs and its result is sent with
  status 201.
\<close>

definition POST_items ::
  "loc_elem list \<Rightarrow> ItemIn \<Rightarrow> (int, Item_06) dict \<Rightarrow> wire_response \<times> (int, Item_06) dict" where
  "POST_items pre body items_db =
     (case validate_Item pre body of
        Inl errs \<Rightarrow> (default_validation_handler errs, items_db)
      | Inr item \<Rightarrow>
          (case create_item item items_db of
             (r, items_db') \<Rightarrow> (respond None 201 (Inr (Value r)), items_db')))"

subsection \<open>Snapshot 09: the handler registered for \<^verbatim>\<open>RequestValidationError\<close>\<close>

text \<open>
  \<^verbatim>\<open>validation_exception_handler(request, exc)\<close>, on \<^verbatim>\<open>exc.errors()\<close>:
  \<^verbatim>\<open>
  return JSONResponse(status_code=status.HTTP_400_BAD_REQUEST,
      content={"message": "Invalid input provided.", "details": exc.errors()})
  \<close>
  The strings it collects in \<^verbatim>\<open>error_details\<close> are not part of the response.
\<close>

definition validation_exception_handler :: "ErrorDetails list \<Rightarrow> wire_response" where
  "validation_exception_handler errors =
     \<lparr>status = 400,
      content = Some (PDict [(''message'', PStr ''Invalid input provided.''),
                             (''details'', PList (map PError errors))])\<rparr>"

text \<open>\<^verbatim>\<open>class InputData(BaseModel): value: int = Field(gt=10)\<close>\<close>

record InputData =
  data_value :: int

text \<open>
  Modelled from the spec: \<open>validate\<close> (4.1) for the schema \<^verbatim>\<open>InputData\<close>, absent from
  \<^verbatim>\<open>src/\<close>: \<^verbatim>\<open>value\<close> is required and must be greater than 10.
\<close>

definition validate_InputData :: "loc_elem list \<Rightarrow> int raw \<Rightarrow> ErrorDetails list + InputData" where
  "validate_InputData pre r =
     (case r of
        Absent \<Rightarrow> field_error pre ''value'' missing
      | Mistyped \<Rightarrow> field_error pre ''value'' wrong_type
      | Given v \<Rightarrow>
          if \<not> v > 10 then field_error pre ''value'' (greater_than 10)
          else Inr \<lparr>data_value = v\<rparr>)"

text \<open>
  \<^verbatim>\<open>validate_endpoint(data)\<close>:
  \<^verbatim>\<open>return {"message": "Data is valid!", "received_value": data.value}\<close>
\<close>

definition validate_endpoint :: "InputData \<Rightarrow> pyval" where
  "validate_endpoint data =
     PDict [(''message'', PStr ''Data is valid!''), (''received_value'', PInt (data_value data))]"

text \<open>
  Modelled from the spec: the request pipeline (2, 4.3, 4.5) for the route
  \<^verbatim>\<open>@app.post("/validate")\<close> of snapshot 09, absent from \<^verbatim>\<open>src/\<close>: a validation failure
  goes to the handler that snapshot 09 registers and \<open>validate_endpoint\<close> is not run;
  otherwise its result is sent with status 200.
\<close>

definition POST_validate :: "loc_elem list \<Rightarrow> int raw \<Rightarrow> wire_response" where
  "POST_validate pre body =
     (case validate_InputData pre body of
        Inl errs \<Rightarrow> validation_exception_handler errs
      | Inr data \<Rightarrow> respond None 200 (Inr (Value (validate_endpoint data))))"

section \<open>Facts about the path functions\<close>

lemma basename_no_sep: "CHR ''/'' \<notin> set (basename p)"
  by (auto simp: basename_def dest: set_takeWhileD)

lemma basename_idem: "basename (basename p) = basename p"
proof -
  have "takeWhile (\<lambda>c. c \<noteq> CHR ''/'') (takeWhile (\<lambda>c. c \<noteq> CHR ''/'') (rev p))
          = takeWhile (\<lambda>c. c \<noteq> CHR ''/'') (rev p)"
    by (auto simp: takeWhile_eq_all_conv dest: set_takeWhileD)
  then show ?thesis by (simp add: basename_def)
qed

lemma basename_not_abs: "\<not> startswith (basename p) ''/''"
proof (cases "basename p")
  case Nil
  then show ?thesis by (simp add: startswith_def)
next
  case (Cons c cs)
  with basename_no_sep [of p] have "c \<noteq> CHR ''/''" by auto
  with Cons show ?thesis by (simp add: startswith_def)
qed

lemma join_DOWNLOAD_DIR: "join DOWNLOAD_DIR (basename p) = DOWNLOAD_DIR @ basename p"
proof -
  have "endswith DOWNLOAD_DIR ''/''"
    by (simp add: endswith_def DOWNLOAD_DIR_def)
  then show ?thesis by (simp add: join_def basename_not_abs)
qed

lemma normpath_abs: "isabs p \<Longrightarrow> isabs (normpath p)"
  by (cases p) (auto simp: isabs_def startswith_def normpath_def Let_def)

lemma join_abs: "isabs a \<Longrightarrow> isabs (join a b)"
  by (cases a) (auto simp: isabs_def startswith_def join_def)

lemma abspath_abs: "isabs cwd \<Longrightarrow> isabs (abspath cwd p)"
  by (simp add: abspath_def normpath_abs join_abs)

lemma relative_not_under_abs:
  assumes "isabs r"
  shows "\<not> startswith (DOWNLOAD_DIR @ b) r"
proof -
  from assms obtain t where r: "r = CHR ''/'' # t"
    by (cases r) (auto simp: isabs_def startswith_def)
  show ?thesis
    by (simp add: r startswith_def DOWNLOAD_DIR_def)
qed

section \<open>Snapshot 10: the claims about response models\<close>

lemma project_fields_keys:
  "lefts (map (project_field src) fs) = [] \<Longrightarrow>
   map fst (rights (map (project_field src) fs)) = map field_name fs"
proof (induction fs)
  case Nil
  then show ?case by simp
next
  case (Cons f fs)
  then show ?case
    by (cases "project_field src f")
       (auto simp: project_field_def split: option.splits)
qed

lemma rights_member:
  "lefts rs = [] \<Longrightarrow> x \<in> set (rights rs) \<Longrightarrow> Inr x \<in> set rs"
  by (induction rs rule: lefts.induct) auto

lemma at_index_Inr: "at_index i r = Inr p \<longleftrightarrow> r = Inr p"
  by (cases r) (auto simp: at_index_def)

lemma project_only_declared: "project s v = Inr p \<Longrightarrow> only_declared s p"
proof (induction s v arbitrary: p rule: project.induct)
  case (1 fs v)
  then show ?case
    by (auto simp: Let_def project_fields_keys split: option.splits if_splits)
next
  case (2 s vs)
  let ?rs = "map (\<lambda>(i, v). at_index i (project s v)) (zip [0..<length vs] vs)"
  from "2.prems" have l: "lefts ?rs = []" and p: "p = PList (rights ?rs)"
    by (auto simp: Let_def split: if_splits)
  have "only_declared s x" if "x \<in> set (rights ?rs)" for x
  proof -
    from rights_member [OF l that] obtain i v
      where iv: "(i, v) \<in> set (zip [0..<length vs] vs)" and r: "at_index i (project s v) = Inr x"
      by auto
    from r have "project s v = Inr x" by (simp add: at_index_Inr)
    with iv "2.IH" [of "(i, v)" i v x] show ?thesis by simp
  qed
  with p show ?case by (simp add: list_all_iff)
qed simp_all

lemma rights_map_Inr: "rights (map (\<lambda>x. Inr (f x)) xs) = map f xs"
  by (induction xs) auto

lemma lefts_map_Inr: "lefts (map (\<lambda>x. Inr (f x)) xs) = []"
  by (induction xs) auto

lemma project_list_all:
  assumes "\<And>v. v \<in> set vs \<Longrightarrow> project s (g v) = Inr (f v)"
  shows "project (ListOf s) (PList (map g vs)) = Inr (PList (map f vs))"
proof -
  have "map (\<lambda>(i, v). at_index i (project s v)) (zip [0..<length (map g vs)] (map g vs))
          = map (\<lambda>x. Inr (f x)) vs"
    using assms by (intro nth_equalityI) (auto simp: at_index_def)
  then show ?thesis
    by (simp add: rights_map_Inr lefts_map_Inr del: length_map)
qed

lemma project_ItemPublic: "project ItemPublic (ItemInternal_obj i) = Inr (public_item i)"
  by (simp add: ItemPublic_def ItemInternal_obj_def public_item_def project_field_def)

lemma project_UserOut: "project UserOut (UserIn_obj u) = Inr (public_user u)"
  by (simp add: UserOut_def UserIn_obj_def public_user_def project_field_def)

lemma map_of_update_same: "map_of (AList.update k v al) k = Some v"
  by (simp add: AList.update_conv')

lemma map_of_update_other: "k' \<noteq> k \<Longrightarrow> map_of (AList.update k v al) k' = map_of al k'"
  by (simp add: AList.update_conv')

text \<open>
  Claim C1.  Whatever the internal value carries, a successful projection onto an output
  schema holds exactly the schema's declared fields (element by element for a list schema).
  For the routes of snapshot 10: an item is answered with \<^verbatim>\<open>name\<close> and \<^verbatim>\<open>price\<close> only
  (\<^verbatim>\<open>owner_id\<close> and \<^verbatim>\<open>secret_code\<close> are gone), the item list is filtered item by item, and
  a user is answered with \<^verbatim>\<open>username\<close>, \<^verbatim>\<open>email\<close> and \<^verbatim>\<open>full_name\<close> only (\<^verbatim>\<open>password\<close>
  is gone).
\<close>

theorem response_model_only_declared_fields:
  "(project s v = Inr p \<longrightarrow> only_declared s p)
   \<and> (map_of items item_id = Some it \<longrightarrow>
        GET_item item_id items = \<lparr>status = 200, content = Some (public_item it)\<rparr>)
   \<and> GET_items items
        = \<lparr>status = 200, content = Some (PList (map public_item (map snd items)))\<rparr>
   \<and> (map_of users uname = Some u \<longrightarrow>
        GET_user uname users = \<lparr>status = 200, content = Some (public_user u)\<rparr>)
   \<and> map_option (map fst) (attrs_of (public_item it)) = Some [''name'', ''price'']
   \<and> map_option (map fst) (attrs_of (public_user u)) = Some [''username'', ''email'', ''full_name'']"
proof -
  have a: "project s v = Inr p \<longrightarrow> only_declared s p"
    by (simp add: project_only_declared)
  have b: "map_of items item_id = Some it \<longrightarrow>
        GET_item item_id items = \<lparr>status = 200, content = Some (public_item it)\<rparr>"
    by (simp add: GET_item_def read_single_item_def respond_def shape_def project_ItemPublic
        serialize_def)
  have "project (ListOf ItemPublic) (PList (map ItemInternal_obj (map snd items)))
          = Inr (PList (map public_item (map snd items)))"
    by (rule project_list_all) (rule project_ItemPublic)
  then have c: "GET_items items
        = \<lparr>status = 200, content = Some (PList (map public_item (map snd items)))\<rparr>"
    by (simp add: GET_items_def read_items_def respond_def shape_def serialize_def)
  have d: "map_of users uname = Some u \<longrightarrow>
        GET_user uname users = \<lparr>status = 200, content = Some (public_user u)\<rparr>"
    by (simp add: GET_user_def read_user_def respond_def shape_def project_UserOut serialize_def)
  have e: "map_option (map fst) (attrs_of (public_item it)) = Some [''name'', ''price'']"
    by (simp add: public_item_def)
  have f: "map_option (map fst) (attrs_of (public_user u)) = Some [''username'', ''email'', ''full_name'']"
    by (simp add: public_user_def)
  from a b c d e f show ?thesis by blast
qed

theorem response_model_only_declared_fields_witness:
  "project ItemPublic
       (ItemInternal_obj \<lparr>name = ''keyboard'', price = 75, owner_id = 1, secret_code = ''abc''\<rparr>)
     = Inr (PDict [(''name'', PStr ''keyboard''), (''price'', PFloat 75)])
   \<and> only_declared ItemPublic (PDict [(''name'', PStr ''keyboard''), (''price'', PFloat 75)])
   \<and> map_of fake_items_db 1
       = Some \<lparr>name = ''keyboard'', price = 75, owner_id = 1, secret_code = ''abc''\<rparr>
   \<and> GET_item 1 fake_items_db
       = \<lparr>status = 200,
          content = Some (PDict [(''name'', PStr ''keyboard''), (''price'', PFloat 75)])\<rparr>
   \<and> map_of [(''ann'', \<lparr>username = ''ann'', password = ''s3cret'', email = ''ann@example.com'',
                          full_name = None\<rparr>)] ''ann''
       = Some \<lparr>username = ''ann'', password = ''s3cret'', email = ''ann@example.com'',
                 full_name = None\<rparr>
   \<and> GET_user ''ann''
         [(''ann'', \<lparr>username = ''ann'', password = ''s3cret'', email = ''ann@example.com'',
                     full_name = None\<rparr>)]
       = \<lparr>status = 200,
          content = Some (PDict [(''username'', PStr ''ann''), (''email'', PStr ''ann@example.com''),
                                 (''full_name'', PNone)])\<rparr>"
proof -
  let ?i = "\<lparr>name = ''keyboard'', price = 75, owner_id = 1, secret_code = ''abc''\<rparr>"
  let ?u = "\<lparr>username = ''ann'', password = ''s3cret'', email = ''ann@example.com'',
             full_name = None\<rparr>"
  have p: "project ItemPublic (ItemInternal_obj ?i)
             = Inr (PDict [(''name'', PStr ''keyboard''), (''price'', PFloat 75)])"
    by (simp add: ItemPublic_def ItemInternal_obj_def project_field_def)
  have i: "map_of fake_items_db 1 = Some ?i"
    by (simp add: fake_items_db_def)
  have u: "map_of [(''ann'', ?u)] ''ann'' = Some ?u"
    by simp
  show ?thesis
    using p i u
      response_model_only_declared_fields
        [of ItemPublic "ItemInternal_obj ?i"
            "PDict [(''name'', PStr ''keyboard''), (''price'', PFloat 75)]"
            fake_items_db 1 ?i "[(''ann'', ?u)]" "''ann''" ?u]
    by (simp add: public_item_def public_user_def opt_str_def)
qed

text \<open>
  Claim C10.  \<open>create_user\<close> stores the input object itself under its user name, password
  included, and touches no other key; a later \<open>read_user\<close> finds that same object.  Only
  the responses of the two routes, shaped by \<^verbatim>\<open>UserOut\<close>, leave the password out.
\<close>

theorem create_user_keeps_password:
  "snd (POST_users user db) = AList.update (username user) user db
   \<and> map_of (snd (POST_users user db)) (username user) = Some user
   \<and> read_user (username user) (snd (POST_users user db)) = Inr user
   \<and> map_option password (map_of (snd (POST_users user db)) (username user))
       = Some (password user)
   \<and> (\<forall>k. k \<noteq> username user \<longrightarrow> map_of (snd (POST_users user db)) k = map_of db k)
   \<and> fst (POST_users user db) = \<lparr>status = 201, content = Some (public_user user)\<rparr>
   \<and> GET_user (username user) (snd (POST_users user db))
       = \<lparr>status = 200, content = Some (public_user user)\<rparr>
   \<and> map_option (map fst) (attrs_of (public_user user))
       = Some [''username'', ''email'', ''full_name'']"
  by (simp add: POST_users_def create_user_def read_user_def GET_user_def respond_def shape_def
      serialize_def project_UserOut map_of_update_same map_of_update_other public_user_def)

theorem create_user_keeps_password_witness:
  "POST_users \<lparr>username = ''ann'', password = ''s3cret'', email = ''ann@example.com'',
               full_name = Some ''Ann Lee''\<rparr> fake_users_db
     = (\<lparr>status = 201,
         content = Some (PDict [(''username'', PStr ''ann''), (''email'', PStr ''ann@example.com''),
                                (''full_name'', PStr ''Ann Lee'')])\<rparr>,
        [(''ann'', \<lparr>username = ''ann'', password = ''s3cret'', email = ''ann@example.com'',
                    full_name = Some ''Ann Lee''\<rparr>)])
   \<and> ''bob'' \<noteq> ''ann''
   \<and> map_of (snd (POST_users \<lparr>username = ''ann'', password = ''s3cret'',
                   email = ''ann@example.com'', full_name = Some ''Ann Lee''\<rparr> fake_users_db)) ''bob''
       = None"
  using create_user_keeps_password
    [of "\<lparr>username = ''ann'', password = ''s3cret'', email = ''ann@example.com'',
          full_name = Some ''Ann Lee''\<rparr>" fake_users_db]
  by (simp add: fake_users_db_def public_user_def opt_str_def prod_eq_iff)

section \<open>Snapshot 12: the claims about delete and update\<close>

lemma map_of_delete_same: "map_of (AList.delete k al) k = None"
  by (simp add: AList.delete_conv')

lemma update_item_changed:
  "map_of items_db item_id = Some stored \<Longrightarrow> stored \<noteq> item \<Longrightarrow>
   PUT_item item_id item items_db
     = (\<lparr>status = 200, content = Some (Item_dict item)\<rparr>, AList.update item_id item items_db)"
  by (simp add: PUT_item_def update_item_def model_dump_def respond_def shape_def Item_dict_def
      Item_schema_def project_field_def serialize_def)

text \<open>
  Claim C6.  Deleting an id that is not in the store raises 404 (\<^verbatim>\<open>Item not found\<close>) and
  leaves the store as it was.  Deleting an id that is in the store answers 204 with no body
  at all, removes exactly that key and keeps every other entry; afterwards the id is absent,
  so deleting or updating it again answers 404.
\<close>

theorem delete_item_status:
  "(map_of items_db item_id = None \<longrightarrow>
      delete_item item_id items_db
        = (Inl \<lparr>status_code = 404, detail = Some ''Item not found''\<rparr>, items_db)
      \<and> status (fst (DELETE_item item_id items_db)) = 404
      \<and> snd (DELETE_item item_id items_db) = items_db)
   \<and> (map_of items_db item_id \<noteq> None \<longrightarrow>
      fst (DELETE_item item_id items_db) = \<lparr>status = 204, content = None\<rparr>
      \<and> snd (DELETE_item item_id items_db) = AList.delete item_id items_db
      \<and> map_of (snd (DELETE_item item_id items_db)) item_id = None
      \<and> (\<forall>k. k \<noteq> item_id \<longrightarrow> map_of (snd (DELETE_item item_id items_db)) k = map_of items_db k)
      \<and> status (fst (DELETE_item item_id (snd (DELETE_item item_id items_db)))) = 404
      \<and> status (fst (PUT_item item_id item (snd (DELETE_item item_id items_db)))) = 404)"
  by (auto simp: delete_item_def DELETE_item_def PUT_item_def update_item_def respond_def
      shape_def serialize_def http_exception_handler_def map_of_delete_same)

theorem delete_item_status_witness:
  "map_of items_db_init 7 = None
   \<and> DELETE_item 7 items_db_init
       = (\<lparr>status = 404, content = Some (PDict [(''detail'', PStr ''Item not found'')])\<rparr>,
          items_db_init)
   \<and> map_of items_db_init 1 \<noteq> None
   \<and> DELETE_item 1 items_db_init
       = (\<lparr>status = 204, content = None\<rparr>, [(2, \<lparr>name = ''keyboard'', price = 75\<rparr>)])
   \<and> status (fst (DELETE_item 1 (snd (DELETE_item 1 items_db_init)))) = 404"
  using delete_item_status [of items_db_init 7] delete_item_status [of items_db_init 1]
  by (simp add: items_db_init_def delete_item_def DELETE_item_def respond_def shape_def
      serialize_def http_exception_handler_def)

text \<open>
  Claim C7.  A PUT of the payload that is already stored under id 1 leaves the store
  unchanged, but the handler returns the \<^verbatim>\<open>HTTPException(304)\<close> object as an ordinary value;
  it is then shaped against \<^verbatim>\<open>response_model=Item\<close>, has neither \<^verbatim>\<open>name\<close> nor \<^verbatim>\<open>price\<close>,
  and the response is a server fault, not 304.
\<close>

theorem update_item_same_payload:
  "update_item 1 \<lparr>name = ''Laptop'', price = 1200\<rparr> items_db_init
     = (Inr (Value (exception_object \<lparr>status_code = 304, detail = None\<rparr>)), items_db_init)
   \<and> project Item_schema (exception_object \<lparr>status_code = 304, detail = None\<rparr>)
     = Inl [\<lparr>loc = [Key ''name''], problem = missing\<rparr>, \<lparr>loc = [Key ''price''], problem = missing\<rparr>]
   \<and> status (fst (PUT_item 1 \<lparr>name = ''Laptop'', price = 1200\<rparr> items_db_init)) = 500
   \<and> status (fst (PUT_item 1 \<lparr>name = ''Laptop'', price = 1200\<rparr> items_db_init)) \<noteq> 304"
  by (simp add: update_item_def PUT_item_def items_db_init_def model_dump_def respond_def
      shape_def exception_object_def Item_schema_def project_field_def server_fault_def)

section \<open>Snapshot 15: the claims about file download\<close>

text \<open>
  Claim C2.  Whatever directory components the requested name carries, \<open>download_basic\<close>
  keeps only its basename (which has no slash), joins it directly under \<open>DOWNLOAD_DIR\<close>,
  and answers 403 when that path is a regular file and 404 when it is not; it never returns
  a file response.  For \<^verbatim>\<open>../../etc/passwd\<close> the path examined is
  \<^verbatim>\<open>./downloadables/passwd\<close>.
\<close>

theorem download_basic_traversal:
  assumes "isabs cwd"
  shows "CHR ''/'' \<notin> set (basename file_name)
       \<and> download_basic cwd isfile file_name =
           (if isfile (DOWNLOAD_DIR @ basename file_name)
            then Inl \<lparr>status_code = 403, detail = Some ''Access denied''\<rparr>
            else Inl \<lparr>status_code = 404, detail = Some ''File not found''\<rparr>)
       \<and> (\<forall>r. download_basic cwd isfile file_name \<noteq> Inr r)"
proof -
  have deny: "\<not> startswith (DOWNLOAD_DIR @ basename file_name) (abspath cwd DOWNLOAD_DIR)"
    using assms by (intro relative_not_under_abs abspath_abs)
  have eq: "download_basic cwd isfile file_name =
           (if isfile (DOWNLOAD_DIR @ basename file_name)
            then Inl \<lparr>status_code = 403, detail = Some ''Access denied''\<rparr>
            else Inl \<lparr>status_code = 404, detail = Some ''File not found''\<rparr>)"
    using deny by (simp add: download_basic_def join_DOWNLOAD_DIR)
  from eq have "\<forall>r. download_basic cwd isfile file_name \<noteq> Inr r"
    by simp
  with eq basename_no_sep show ?thesis by blast
qed

theorem download_basic_traversal_witness:
  "isabs ''/srv/app''
   \<and> basename ''../../etc/passwd'' = ''passwd''
   \<and> download_basic ''/srv/app'' (\<lambda>p. p = ''./downloadables/passwd'') ''../../etc/passwd''
       = Inl \<lparr>status_code = 403, detail = Some ''Access denied''\<rparr>
   \<and> download_basic ''/srv/app'' (\<lambda>p. False) ''../../etc/passwd''
       = Inl \<lparr>status_code = 404, detail = Some ''File not found''\<rparr>"
proof -
  have a: "isabs ''/srv/app''"
    by (simp add: isabs_def startswith_def)
  have b: "basename ''../../etc/passwd'' = ''passwd''"
    by (simp add: basename_def)
  show ?thesis
    using a b
      download_basic_traversal [OF a, of "''../../etc/passwd''" "\<lambda>p. p = ''./downloadables/passwd''"]
      download_basic_traversal [OF a, of "''../../etc/passwd''" "\<lambda>p. False"]
    by (simp add: DOWNLOAD_DIR_def)
qed

text \<open>
  Claim C3.  With the server running in \<^verbatim>\<open>/srv/app\<close> and
  \<^verbatim>\<open>./downloadables/test.pdf\<close> an existing regular file, the canonical root is
  \<^verbatim>\<open>/srv/app/downloadables\<close>, the path that is compared with it is the relative
  \<^verbatim>\<open>./downloadables/test.pdf\<close>, and the request for \<^verbatim>\<open>test.pdf\<close> is answered 403.
\<close>

theorem download_basic_existing_file_denied:
  "abspath ''/srv/app'' DOWNLOAD_DIR = ''/srv/app/downloadables''
   \<and> join DOWNLOAD_DIR (basename ''test.pdf'') = ''./downloadables/test.pdf''
   \<and> download_basic ''/srv/app'' (\<lambda>p. p = ''./downloadables/test.pdf'') ''test.pdf''
       = Inl \<lparr>status_code = 403, detail = Some ''Access denied''\<rparr>"
  by code_simp



text \<open>
  With the server running in \<^verbatim>\<open>/srv/app\<close>, the request for the existing
  \<^verbatim>\<open>report.pdf\<close> stops at the second guard of \<open>download_custom\<close>, as in
  \<open>download_basic\<close>.
\<close>

lemma download_custom_existing_file:
  "download_custom ''/srv/app'' (\<lambda>p. p = ''./downloadables/report.pdf'') small_mime_table
     ''report.pdf''
   = Inl \<lparr>status_code = 403, detail = Some ''Access denied''\<rparr>"
  by code_simp

section \<open>Snapshot 14: the claim about multi-file upload\<close>

declare read_chunks.simps [simp del]

declare str_nat.simps [simp del]

lemma process_file_entry:
  "fst (process_file io fs n f) =
     (case fst (save_upload io fs (destination_for n f) f) of
        None \<Rightarrow> PDict [(''filename'', opt_str (filename f)), (''save_path'', PStr (destination_for n f))]
      | Some e \<Rightarrow> PDict [(''filename'', opt_str (filename f)), (''error'', PStr e)])"
  by (simp add: process_file_def Let_def split: prod.splits option.splits)

lemma process_file_marked:
  "marked_saved (fst (process_file io fs n f)) \<noteq> marked_failed (fst (process_file io fs n f))"
  by (simp add: process_file_entry marked_saved_def marked_failed_def split: option.splits)

lemma process_file_filename:
  "entry_filename (fst (process_file io fs n f)) = Some (opt_str (filename f))"
  by (simp add: process_file_entry entry_filename_def split: option.splits)

lemma process_files_snoc:
  "process_files io fs (files @ [f]) saved_files =
     (case process_files io fs files saved_files of
        (saved, fs') \<Rightarrow>
          (case process_file io fs' (length saved) f of
             (entry, fs'') \<Rightarrow> (saved @ [entry], fs'')))"
  by (induction files arbitrary: fs saved_files) (auto split: prod.splits)

lemma process_files_entries:
  "\<exists>new. fst (process_files io fs files saved_files) = saved_files @ new
     \<and> length new = length files
     \<and> map entry_filename new = map (\<lambda>f. Some (opt_str (filename f))) files
     \<and> (\<forall>e \<in> set new. marked_saved e \<noteq> marked_failed e)"
proof (induction files arbitrary: fs saved_files)
  case Nil
  then show ?case by simp
next
  case (Cons f files)
  obtain entry fs' where pf: "process_file io fs (length saved_files) f = (entry, fs')"
    by (cases "process_file io fs (length saved_files) f")
  from Cons.IH [of fs' "saved_files @ [entry]"] obtain new
    where new: "fst (process_files io fs' files (saved_files @ [entry])) = (saved_files @ [entry]) @ new"
      "length new = length files"
      "map entry_filename new = map (\<lambda>f. Some (opt_str (filename f))) files"
      "\<forall>e \<in> set new. marked_saved e \<noteq> marked_failed e"
    by blast
  have e1: "entry_filename entry = Some (opt_str (filename f))"
    using process_file_filename [of io fs "length saved_files" f] pf by simp
  have e2: "marked_saved entry \<noteq> marked_failed entry"
    using process_file_marked [of io fs "length saved_files" f] pf by simp
  show ?case
    by (rule exI [of _ "entry # new"]) (use pf new e1 e2 in simp)
qed

lemma read_chunks_small:
  "bs \<noteq> [] \<Longrightarrow> length bs \<le> 1048576 \<Longrightarrow> read_chunks 1048576 bs = [bs]"
  by (subst read_chunks.simps) (simp add: read_chunks.simps [of _ "[]"])

lemma str_nat_3: "str_nat 3 = ''3''"
  by code_simp

text \<open>
  Claim C8.  \<open>upload_multiple_files\<close> answers with exactly one entry per uploaded file, in
  upload order, each carrying that file's name and marked either saved or failed, never
  both.  The entry of a file is the failed one exactly when saving that file raised, and it
  is appended after the entries of the files before it, whatever happened to them: a failure
  does not end the loop.  The message counts the files.
\<close>

theorem upload_multiple_files_one_entry_per_file:
  "length (fst (process_files io fs files [])) = length files
   \<and> map entry_filename (fst (process_files io fs files []))
       = map (\<lambda>f. Some (opt_str (filename f))) files
   \<and> (\<forall>e \<in> set (fst (process_files io fs files [])). marked_saved e \<noteq> marked_failed e)
   \<and> process_files io fs (files @ [f]) []
       = (case process_files io fs files [] of
            (saved, fs') \<Rightarrow>
              (case process_file io fs' (length saved) f of
                 (entry, fs'') \<Rightarrow> (saved @ [entry], fs'')))
   \<and> fst (process_file io fs1 n f)
       = (case fst (save_upload io fs1 (destination_for n f) f) of
            None \<Rightarrow> PDict [(''filename'', opt_str (filename f)),
                           (''save_path'', PStr (destination_for n f))]
          | Some e \<Rightarrow> PDict [(''filename'', opt_str (filename f)), (''error'', PStr e)])
   \<and> fst (upload_multiple_files io fs files)
       = PDict [(''message'', PStr (str_nat (length files) @ '' files processed.'')),
                (''details'', PList (fst (process_files io fs files [])))]"
proof -
  obtain saved fs' where run: "process_files io fs files [] = (saved, fs')"
    by (cases "process_files io fs files []")
  from process_files_entries [of io fs files "[]"] run
  have len: "length saved = length files"
    and names: "map entry_filename saved = map (\<lambda>f. Some (opt_str (filename f))) files"
    and marks: "\<forall>e \<in> set saved. marked_saved e \<noteq> marked_failed e"
    by auto
  have up: "fst (upload_multiple_files io fs files)
       = PDict [(''message'', PStr (str_nat (length files) @ '' files processed.'')),
                (''details'', PList saved)]"
    by (simp add: upload_multiple_files_def run len)
  have snoc: "process_files io fs (files @ [f]) []
       = (case process_file io fs' (length saved) f of
            (entry, fs'') \<Rightarrow> (saved @ [entry], fs''))"
    by (simp add: process_files_snoc run)
  show ?thesis
    unfolding run fst_conv prod.case
    using len names marks up snoc process_file_entry [of io fs1 n f]
    by (intro conjI)
qed

theorem upload_multiple_files_one_entry_per_file_witness:
  "upload_multiple_files (failing_at ''./uploads/b.txt'') []
     [\<lparr>filename = Some ''a.txt'', content_type = None, contents = ''aaa''\<rparr>,
      \<lparr>filename = Some ''b.txt'', content_type = None, contents = ''bbb''\<rparr>,
      \<lparr>filename = Some ''../c.txt'', content_type = None, contents = ''ccc''\<rparr>]
   = (PDict [(''message'', PStr ''3 files processed.''),
             (''details'', PList
                [PDict [(''filename'', PStr ''a.txt''), (''save_path'', PStr ''./uploads/a.txt'')],
                 PDict [(''filename'', PStr ''b.txt''), (''error'', PStr ''No space left on device'')],
                 PDict [(''filename'', PStr ''../c.txt''), (''save_path'', PStr ''./uploads/c.txt'')]])],
      [(''./uploads/a.txt'', ''aaa''), (''./uploads/c.txt'', ''ccc'')])
   \<and> length (fst (process_files (failing_at ''./uploads/b.txt'') []
         [\<lparr>filename = Some ''a.txt'', content_type = None, contents = ''aaa''\<rparr>,
          \<lparr>filename = Some ''b.txt'', content_type = None, contents = ''bbb''\<rparr>,
          \<lparr>filename = Some ''../c.txt'', content_type = None, contents = ''ccc''\<rparr>] [])) = 3
   \<and> marked_failed (PDict [(''filename'', PStr ''b.txt''), (''error'', PStr ''No space left on device'')])
   \<and> marked_saved (PDict [(''filename'', PStr ''a.txt''), (''save_path'', PStr ''./uploads/a.txt'')])"
proof -
  let ?files = "[\<lparr>filename = Some ''a.txt'', content_type = None, contents = ''aaa''\<rparr>,
      \<lparr>filename = Some ''b.txt'', content_type = None, contents = ''bbb''\<rparr>,
      \<lparr>filename = Some ''../c.txt'', content_type = None, contents = ''ccc''\<rparr>]"
  have run: "upload_multiple_files (failing_at ''./uploads/b.txt'') [] ?files
   = (PDict [(''message'', PStr ''3 files processed.''),
             (''details'', PList
                [PDict [(''filename'', PStr ''a.txt''), (''save_path'', PStr ''./uploads/a.txt'')],
                 PDict [(''filename'', PStr ''b.txt''), (''error'', PStr ''No space left on device'')],
                 PDict [(''filename'', PStr ''../c.txt''), (''save_path'', PStr ''./uploads/c.txt'')]])],
      [(''./uploads/a.txt'', ''aaa''), (''./uploads/c.txt'', ''ccc'')])"
    by (simp add: upload_multiple_files_def process_file_def destination_for_def save_upload_def
        failing_at_def read_chunks_small str_nat_3 [unfolded numeral_3_eq_3] Let_def basename_def
        join_def UPLOAD_DIR_def startswith_def endswith_def opt_str_def)
  have len: "length (fst (process_files (failing_at ''./uploads/b.txt'') [] ?files [])) = 3"
    using upload_multiple_files_one_entry_per_file
      [of "failing_at ''./uploads/b.txt''" "[]" ?files]
    by simp
  have m1: "marked_failed (PDict [(''filename'', PStr ''b.txt''), (''error'', PStr ''No space left on device'')])"
    by (simp add: marked_failed_def)
  have m2: "marked_saved (PDict [(''filename'', PStr ''a.txt''), (''save_path'', PStr ''./uploads/a.txt'')])"
    by (simp add: marked_saved_def)
  from run len m1 m2 show ?thesis by (intro conjI)
qed

section \<open>Snapshots 06 and 09: the claims about validation\<close>













lemma validate_Item_Inl_price:
  "validate_price pre (in_price r) = Inl es \<Longrightarrow>
   \<exists>errs. validate_Item pre r = Inl errs \<and> set es \<subseteq> set errs"
  by (auto simp: validate_Item_def Let_def split: sum.splits)


lemma validate_price_not_positive:
  "p \<le> 0 \<Longrightarrow>
   validate_price pre (Given p) = Inl [\<lparr>loc = pre @ [Key ''price''], problem = greater_than 0\<rparr>]"
  by (simp add: validate_price_def field_error_def)


lemma validate_Item_price_minus_5:
  "validate_Item []
     \<lparr>in_name = Given ''Gaming Keyboard'', in_description = Absent, in_price = Given (- 5),
      in_tax = Absent, in_tag = Given [''pc'']\<rparr>
   = Inl [\<lparr>loc = [Key ''price''], problem = greater_than 0\<rparr>]"
proof -
  have "\<not> contains (lower ''Gaming Keyboard'') ''admin''" by code_simp
  then show ?thesis
    by (simp add: validate_Item_def validate_name_def validate_description_def
        validate_price_def validate_tax_def validate_tag_def field_error_def Let_def
        name_must_not_be_admin_def)
qed

text \<open>
  Claim C4, as stated, fails.  The only schema that declares \<^verbatim>\<open>price\<close> with \<^verbatim>\<open>gt=0\<close> is
  that of snapshot 06, whose application registers no validation handler: a body whose only
  fault is \<^verbatim>\<open>price = -5\<close> is answered with status 422, not 400, and the body of the
  response is not a sequence.
\<close>

theorem price_minus_5_is_not_answered_400:
  "status (fst (POST_items []
      \<lparr>in_name = Given ''Gaming Keyboard'', in_description = Absent, in_price = Given (- 5),
       in_tax = Absent, in_tag = Given [''pc'']\<rparr> [])) \<noteq> 400
   \<and> fst (POST_items []
      \<lparr>in_name = Given ''Gaming Keyboard'', in_description = Absent, in_price = Given (- 5),
       in_tax = Absent, in_tag = Given [''pc'']\<rparr> [])
     = \<lparr>status = 422,
        content = Some (PDict [(''detail'',
                    PList [PError \<lparr>loc = [Key ''price''], problem = greater_than 0\<rparr>])])\<rparr>"
  by (simp add: POST_items_def default_validation_handler_def validate_Item_price_minus_5)

text \<open>
  Claim C4, amended.  In snapshot 06 a body whose \<^verbatim>\<open>price\<close> is not greater than 0 (in
  particular -5) fails validation with the \<^verbatim>\<open>greater_than\<close> entry located at \<^verbatim>\<open>price\<close>
  among its errors; \<open>create_item\<close> is not run, the store is unchanged, and the answer is
  the framework default: status 422 with the body \<^verbatim>\<open>{"detail": [...]}\<close> holding the ordered
  sequence of all errors.  Status 400 is what the handler of snapshot 09 answers, for
  snapshot 09's own schema: a \<^verbatim>\<open>value\<close> not greater than 10 gets 400 with the body
  \<^verbatim>\<open>{"message": "Invalid input provided.", "details": [...]}\<close> whose one entry is located at
  \<^verbatim>\<open>value\<close>, and \<open>validate_endpoint\<close> runs only for a greater value.
\<close>

theorem validation_failure_responses:
  "(in_price body = Given p \<and> p \<le> 0 \<longrightarrow>
      (\<exists>errs. validate_Item pre body = Inl errs
         \<and> \<lparr>loc = pre @ [Key ''price''], problem = greater_than 0\<rparr> \<in> set errs
         \<and> POST_items pre body items_db
             = (\<lparr>status = 422,
                 content = Some (PDict [(''detail'', PList (map PError errs))])\<rparr>,
                items_db)))
   \<and> (v \<le> 10 \<longrightarrow>
      POST_validate pre (Given v)
        = \<lparr>status = 400,
           content = Some (PDict [(''message'', PStr ''Invalid input provided.''),
                                  (''details'', PList [PError \<lparr>loc = pre @ [Key ''value''],
                                                              problem = greater_than 10\<rparr>])])\<rparr>)
   \<and> (10 < v \<longrightarrow>
      POST_validate pre (Given v)
        = \<lparr>status = 200,
           content = Some (PDict [(''message'', PStr ''Data is valid!''),
                                  (''received_value'', PInt v)])\<rparr>)
   \<and> validation_exception_handler errors
       = \<lparr>status = 400,
          content = Some (PDict [(''message'', PStr ''Invalid input provided.''),
                                 (''details'', PList (map PError errors))])\<rparr>"
proof -
  have a: "in_price body = Given p \<and> p \<le> 0 \<longrightarrow>
      (\<exists>errs. validate_Item pre body = Inl errs
         \<and> \<lparr>loc = pre @ [Key ''price''], problem = greater_than 0\<rparr> \<in> set errs
         \<and> POST_items pre body items_db
             = (\<lparr>status = 422,
                 content = Some (PDict [(''detail'', PList (map PError errs))])\<rparr>,
                items_db))"
  proof
    assume h: "in_price body = Given p \<and> p \<le> 0"
    then have "validate_price pre (in_price body)
        = Inl [\<lparr>loc = pre @ [Key ''price''], problem = greater_than 0\<rparr>]"
      by (simp add: validate_price_not_positive)
    from validate_Item_Inl_price [OF this] obtain errs
      where errs: "validate_Item pre body = Inl errs"
        and mem: "\<lparr>loc = pre @ [Key ''price''], problem = greater_than 0\<rparr> \<in> set errs"
      by auto
    from errs have "POST_items pre body items_db
             = (\<lparr>status = 422,
                 content = Some (PDict [(''detail'', PList (map PError errs))])\<rparr>,
                items_db)"
      by (simp add: POST_items_def default_validation_handler_def)
    with errs mem show "\<exists>errs. validate_Item pre body = Inl errs
         \<and> \<lparr>loc = pre @ [Key ''price''], problem = greater_than 0\<rparr> \<in> set errs
         \<and> POST_items pre body items_db
             = (\<lparr>status = 422,
                 content = Some (PDict [(''detail'', PList (map PError errs))])\<rparr>,
                items_db)"
      by blast
  qed
  have b: "v \<le> 10 \<longrightarrow>
      POST_validate pre (Given v)
        = \<lparr>status = 400,
           content = Some (PDict [(''message'', PStr ''Invalid input provided.''),
                                  (''details'', PList [PError \<lparr>loc = pre @ [Key ''value''],
                                                              problem = greater_than 10\<rparr>])])\<rparr>"
    by (simp add: POST_validate_def validate_InputData_def field_error_def
        validation_exception_handler_def)
  have c: "10 < v \<longrightarrow>
      POST_validate pre (Given v)
        = \<lparr>status = 200,
           content = Some (PDict [(''message'', PStr ''Data is valid!''),
                                  (''received_value'', PInt v)])\<rparr>"
    by (simp add: POST_validate_def validate_InputData_def validate_endpoint_def respond_def
        shape_def serialize_def)
  have d: "validation_exception_handler errors
       = \<lparr>status = 400,
          content = Some (PDict [(''message'', PStr ''Invalid input provided.''),
                                 (''details'', PList (map PError errors))])\<rparr>"
    by (simp add: validation_exception_handler_def)
  from a b c d show ?thesis by (intro conjI)
qed

theorem validation_failure_responses_witness:
  "in_price \<lparr>in_name = Given ''Gaming Keyboard'', in_description = Absent, in_price = Given (- 5),
             in_tax = Absent, in_tag = Given [''pc'']\<rparr> = Given (- 5)
   \<and> (- 5 :: real) \<le> 0
   \<and> POST_items []
        \<lparr>in_name = Given ''Gaming Keyboard'', in_description = Absent, in_price = Given (- 5),
         in_tax = Absent, in_tag = Given [''pc'']\<rparr> []
       = (\<lparr>status = 422,
           content = Some (PDict [(''detail'',
                       PList [PError \<lparr>loc = [Key ''price''], problem = greater_than 0\<rparr>])])\<rparr>,
          [])
   \<and> (5 :: int) \<le> 10
   \<and> POST_validate [] (Given 5)
       = \<lparr>status = 400,
          content = Some (PDict [(''message'', PStr ''Invalid input provided.''),
                                 (''details'', PList [PError \<lparr>loc = [Key ''value''],
                                                             problem = greater_than 10\<rparr>])])\<rparr>
   \<and> (10 :: int) < 11
   \<and> POST_validate [] (Given 11)
       = \<lparr>status = 200,
          content = Some (PDict [(''message'', PStr ''Data is valid!''),
                                 (''received_value'', PInt 11)])\<rparr>"
proof -
  let ?body = "\<lparr>in_name = Given ''Gaming Keyboard'', in_description = Absent,
                in_price = Given (- 5), in_tax = Absent, in_tag = Given [''pc'']\<rparr>"
  have a: "in_price ?body = Given (- 5)" by simp
  have b: "(- 5 :: real) \<le> 0" by simp
  have p: "POST_items [] ?body []
       = (\<lparr>status = 422,
           content = Some (PDict [(''detail'',
                       PList [PError \<lparr>loc = [Key ''price''], problem = greater_than 0\<rparr>])])\<rparr>,
          [])"
    using validation_failure_responses
      [where body = ?body and p = "- 5" and pre = "[]" and items_db = "[]"]
      a b validate_Item_price_minus_5
    by auto
  have c: "(5 :: int) \<le> 10" by simp
  have q: "POST_validate [] (Given 5)
       = \<lparr>status = 400,
          content = Some (PDict [(''message'', PStr ''Invalid input provided.''),
                                 (''details'', PList [PError \<lparr>loc = [Key ''value''],
                                                             problem = greater_than 10\<rparr>])])\<rparr>"
    using validation_failure_responses [where v = 5 and pre = "[]"] c by simp
  have d: "(10 :: int) < 11" by simp
  have r: "POST_validate [] (Given 11)
       = \<lparr>status = 200,
          content = Some (PDict [(''message'', PStr ''Data is valid!''),
                                 (''received_value'', PInt 11)])\<rparr>"
    using validation_failure_responses [where v = 11 and pre = "[]"] d by simp
  from a b p c q d r show ?thesis by (intro conjI)
qed



end
